theory Spec2Isabelle
  imports Main "HOL-Library.Sublist"
begin

section \<open>Strings as the scripts use them\<close>

text \<open>
  Python strings are modelled as \<^typ>\<open>string\<close>, lists of 8-bit characters. The
  scripts only test membership in ASCII classes (\<^verbatim>\<open>[a-z]\<close>, \<^verbatim>\<open>[a-zA-Z0-9_-]\<close>,
  \<^verbatim>\<open>\d\<close>) and compare with ASCII literals.
\<close>

definition is_lower :: "char \<Rightarrow> bool" where
  "is_lower c = (97 \<le> (of_char c :: nat) \<and> (of_char c :: nat) \<le> 122)"

definition is_upper :: "char \<Rightarrow> bool" where
  "is_upper c = (65 \<le> (of_char c :: nat) \<and> (of_char c :: nat) \<le> 90)"

definition is_digit :: "char \<Rightarrow> bool" where
  "is_digit c = (48 \<le> (of_char c :: nat) \<and> (of_char c :: nat) \<le> 57)"

text \<open>\<^verbatim>\<open>sub in text\<close>: \<open>sub\<close> occurs in \<open>text\<close> as a contiguous run.\<close>

fun py_in :: "string \<Rightarrow> string \<Rightarrow> bool" where
  "py_in sub [] = (sub = [])"
| "py_in sub (c # cs) = (prefix sub (c # cs) \<or> py_in sub cs)"

text \<open>\<^verbatim>\<open>s.replace(a, b)\<close> for a single character \<open>a\<close>.\<close>

definition replace_char :: "char \<Rightarrow> string \<Rightarrow> string \<Rightarrow> string" where
  "replace_char a b s = concat (map (\<lambda>c. if c = a then b else [c]) s)"

section \<open>Size upgrade of an image URL\<close>

text \<open>
  \<^verbatim>\<open>re.sub(r'_[a-z]\.(jpg|png)$', '_b.\\1', img_url)\<close> in \<^verbatim>\<open>FlickrScraper.get_photo_details\<close>
  and \<^verbatim>\<open>re.sub(r'_[a-z]\.jpg$', '_b.jpg', img_url)\<close> in
  \<^verbatim>\<open>FlickrAPIScraper.get_photo_info_direct\<close>. A match is six characters long and is
  anchored by \<^verbatim>\<open>$\<close>, which in Python matches at the end of the string and also just
  before a newline that ends the string; so there is at most one match, and it is either
  the last six characters, or the six characters before a final newline.
\<close>

definition is_size_token :: "string list \<Rightarrow> string \<Rightarrow> bool" where
  "is_size_token exts t =
     (case t of
        u # c # d # e \<Rightarrow> u = CHR ''_'' \<and> is_lower c \<and> d = CHR ''.'' \<and> e \<in> set exts
      | _ \<Rightarrow> False)"

definition sub_token_at_end :: "string list \<Rightarrow> string \<Rightarrow> string option" where
  "sub_token_at_end exts s =
     (let t = drop (length s - 6) s in
      if 6 \<le> length s \<and> is_size_token exts t
      then Some (take (length s - 6) s @ ''_b.'' @ drop 3 t)
      else None)"

definition re_sub_size :: "string list \<Rightarrow> string \<Rightarrow> string" where
  "re_sub_size exts url =
     (case sub_token_at_end exts url of
        Some r \<Rightarrow> r
      | None \<Rightarrow>
          if url \<noteq> [] \<and> last url = CHR 0x0A
          then (case sub_token_at_end exts (butlast url) of
                  Some r \<Rightarrow> r @ [CHR 0x0A]
                | None \<Rightarrow> url)
          else url)"

definition upgrade_size :: "string \<Rightarrow> string" where
  "upgrade_size img_url = re_sub_size [''jpg'', ''png''] img_url"

definition upgrade_size_api :: "string \<Rightarrow> string" where
  "upgrade_size_api img_url = re_sub_size [''jpg''] img_url"

section \<open>License normalization (FlickrScraper)\<close>

text \<open>
  \<^verbatim>\<open>self.licenses\<close> of \<^verbatim>\<open>FlickrScraper.__init__\<close>, in insertion order, which is the
  order in which \<^verbatim>\<open>self.licenses.items()\<close> is iterated.
\<close>

definition licenses :: "(string \<times> string) list" where
  "licenses =
     [(''4'', ''CC BY 2.0''),
      (''5'', ''CC BY-SA 2.0''),
      (''9'', ''CC0 1.0''),
      (''10'', ''Public Domain Mark''),
      (''11'', ''CC BY 4.0''),
      (''12'', ''CC BY-SA 4.0'')]"

text \<open>
  The test of the loop in \<^verbatim>\<open>get_photo_details\<close>:
  \<^verbatim>\<open>value in license_text or value.replace(' ', '') in license_text.replace(' ', '')\<close>.
\<close>

definition label_matches :: "string \<Rightarrow> string \<Rightarrow> bool" where
  "label_matches v license_text =
     (py_in v license_text \<or>
      py_in (replace_char CHR '' '' [] v) (replace_char CHR '' '' [] license_text))"

text \<open>The loop over the table: the first entry whose label matches wins (\<^verbatim>\<open>break\<close>).\<close>

fun license_loop :: "(string \<times> string) list \<Rightarrow> string \<Rightarrow> string option" where
  "license_loop [] license_text = None"
| "license_loop ((key, v) # rest) license_text =
     (if label_matches v license_text then Some v else license_loop rest license_text)"

definition normalize_license :: "string \<Rightarrow> string option" where
  "normalize_license license_text = license_loop licenses license_text"

text \<open>
  The rule as the specification words it, for comparison with the loop: the longest
  canonical label that is a substring of the text (the earliest one among labels of
  equal length).
\<close>

definition longer_label :: "string \<Rightarrow> string \<Rightarrow> string" where
  "longer_label best v = (if length best < length v then v else best)"

definition spec_longest_label :: "string \<Rightarrow> string option" where
  "spec_longest_label license_text =
     (case filter (\<lambda>v. py_in v license_text) (map snd licenses) of
        [] \<Rightarrow> None
      | v # vs \<Rightarrow> Some (foldl longer_label v vs))"

section \<open>Candidate lister (EnhancedFlickrScraper, FlickrHTMLScraper)\<close>

text \<open>A photo reference: the dictionary with keys \<^verbatim>\<open>id\<close>, \<^verbatim>\<open>username\<close>, \<^verbatim>\<open>url\<close>.\<close>

record photo_info =
  pi_id :: string
  pi_username :: string
  pi_url :: string

definition photos_prefix :: string where
  "photos_prefix = ''https://www.flickr.com/photos/''"

text \<open>
  One match of \<^verbatim>\<open>https://www\.flickr\.com/photos/([^/]+)/(\d{8,})\<close> at the head of
  \<open>s\<close>: the two groups and the length of the text matched. The group \<^verbatim>\<open>[^/]+\<close> is
  followed by a slash, so it is the whole run of characters up to the next slash, and it
  must not be empty; the greedy \<^verbatim>\<open>\d{8,}\<close> takes the whole run of digits, at least
  eight of them.
\<close>

definition match_photo_url :: "string \<Rightarrow> (string \<times> string \<times> nat) option" where
  "match_photo_url s =
     (if prefix photos_prefix s then
        (let r = drop (length photos_prefix) s;
             username = takeWhile (\<lambda>c. c \<noteq> CHR ''/'') r
         in if username = [] then None
            else (case dropWhile (\<lambda>c. c \<noteq> CHR ''/'') r of
                    [] \<Rightarrow> None
                  | slash # r3 \<Rightarrow>
                      (let photo_id = takeWhile is_digit r3
                       in if 8 \<le> length photo_id
                          then Some (username, photo_id,
                                 length photos_prefix + length username + 1 + length photo_id)
                          else None)))
      else None)"

text \<open>
  \<^verbatim>\<open>re.findall(pattern, html_content)\<close>: the matches from left to right, without overlap.
  The first argument counts the characters of the current match still to be passed over
  before the next match may start.
\<close>

fun findall_from :: "nat \<Rightarrow> string \<Rightarrow> (string \<times> string) list" where
  "findall_from skip [] = []"
| "findall_from (Suc skip) (c # cs) = findall_from skip cs"
| "findall_from 0 (c # cs) =
     (case match_photo_url (c # cs) of
        Some (username, photo_id, len) \<Rightarrow> (username, photo_id) # findall_from (len - 1) cs
      | None \<Rightarrow> findall_from 0 cs)"

definition findall_photo_urls :: "string \<Rightarrow> (string \<times> string) list" where
  "findall_photo_urls html_content = findall_from 0 html_content"

text \<open>The loop that removes duplicates while preserving order, with its \<^verbatim>\<open>seen\<close> set.\<close>

fun dedup_loop :: "(string \<times> string) list \<Rightarrow> string set \<Rightarrow> photo_info list \<Rightarrow> photo_info list" where
  "dedup_loop [] seen photos = photos"
| "dedup_loop ((username, photo_id) # matches) seen photos =
     (if photo_id \<notin> seen
      then dedup_loop matches (insert photo_id seen)
             (photos @ [\<lparr>pi_id = photo_id, pi_username = username,
                         pi_url = photos_prefix @ username @ ''/'' @ photo_id\<rparr>])
      else dedup_loop matches seen photos)"

text \<open>\<^verbatim>\<open>xs[:n]\<close>: a negative bound counts from the end.\<close>

definition py_slice_to :: "int \<Rightarrow> 'a list \<Rightarrow> 'a list" where
  "py_slice_to n xs =
     (if 0 \<le> n then take (nat n) xs else take (nat (int (length xs) + n)) xs)"

text \<open>
  \<^verbatim>\<open>EnhancedFlickrScraper.extract_photos_from_html\<close>; \<open>max_photos\<close> is \<open>None\<close> or an
  integer, and the list is cut only when \<^verbatim>\<open>self.max_photos\<close> is truthy.
\<close>

definition extract_photos_from_html :: "int option \<Rightarrow> string \<Rightarrow> photo_info list" where
  "extract_photos_from_html max_photos html_content =
     (let photos = dedup_loop (findall_photo_urls html_content) {} []
      in case max_photos of
           None \<Rightarrow> photos
         | Some n \<Rightarrow> if n \<noteq> 0 then py_slice_to n photos else photos)"

text \<open>
  \<^verbatim>\<open>FlickrHTMLScraper.extract_photos_from_html\<close>, which always returns
  \<^verbatim>\<open>photos[:self.max_photos]\<close> (the whole list when the bound is \<open>None\<close>).
\<close>

definition html_extract_photos_from_html :: "int option \<Rightarrow> string \<Rightarrow> photo_info list" where
  "html_extract_photos_from_html max_photos html_content =
     (let photos = dedup_loop (findall_photo_urls html_content) {} []
      in case max_photos of
           None \<Rightarrow> photos
         | Some n \<Rightarrow> py_slice_to n photos)"

text \<open>
  The order of first occurrence, for stating what the lister promises: the position at
  which an id first occurs in a list of ids.
\<close>

definition first_index :: "'a \<Rightarrow> 'a list \<Rightarrow> nat" where
  "first_index x xs = length (takeWhile (\<lambda>y. y \<noteq> x) xs)"

text \<open>A list of ids with every repetition after the first occurrence removed.\<close>

fun first_occurrences :: "'a list \<Rightarrow> 'a list" where
  "first_occurrences [] = []"
| "first_occurrences (x # xs) = x # filter (\<lambda>y. y \<noteq> x) (first_occurrences xs)"

section \<open>The network and the output directory\<close>

text \<open>
  A response of \<^verbatim>\<open>session.get\<close>: the final URL after redirects (\<^verbatim>\<open>response.url\<close>),
  whether \<^verbatim>\<open>raise_for_status()\<close> returns, and the body.
\<close>

record response =
  resp_url :: string
  resp_ok :: bool
  resp_body :: string

text \<open>
  What \<^verbatim>\<open>BeautifulSoup\<close> finds on a sizes page: the \<^verbatim>\<open>href\<close> and the stripped text of
  every \<^verbatim>\<open>a[href]\<close> in document order, and the \<^verbatim>\<open>src\<close> of the image inside
  \<^verbatim>\<open>div#allsizes-photo\<close> if there is one.
\<close>

record sizes_page =
  sp_links :: "(string \<times> string) list"
  sp_allsizes_src :: "string option"

text \<open>The fields that \<^verbatim>\<open>get_photo_metadata\<close> reads off a photo page.\<close>

record page_fields =
  pf_title :: string
  pf_description :: "string option"
  pf_location :: "(string \<times> string) list option"
  pf_tags :: "string list"
  pf_date_taken :: "string option"
  pf_photographer_name :: string
  pf_views :: "string option"
  pf_license :: string

text \<open>
  What \<^verbatim>\<open>FlickrScraper.get_photo_details\<close> looks up on a detail page: the texts of
  \<^verbatim>\<open>a.owner-name\<close>, \<^verbatim>\<open>span.username\<close>, \<^verbatim>\<open>h1.photo-title\<close>, the first segment of the
  \<^verbatim>\<open>og:title\<close> content, \<^verbatim>\<open>div.photo-desc\<close>, the text of the first link to
  \<^verbatim>\<open>/creativecommons/\<close>, the \<^verbatim>\<open>href\<close> of the download link (the outer option: is there
  such a link), the \<^verbatim>\<open>secret\<close> found in the page source, the \<^verbatim>\<open>src\<close> of
  \<^verbatim>\<open>img.main-photo\<close> and the content of \<^verbatim>\<open>og:image\<close>.
\<close>

record detail_page =
  dp_owner_name :: "string option"
  dp_username :: "string option"
  dp_photo_title :: "string option"
  dp_og_title :: "string option"
  dp_photo_desc :: "string option"
  dp_license_text :: "string option"
  dp_download_href :: "string option option"
  dp_secret :: "string option"
  dp_main_photo_src :: "string option option"
  dp_og_image :: "string option option"

text \<open>
  The environment of a run. \<open>http_get n url\<close> is the answer to the request for \<open>url\<close>
  made after \<open>n\<close> earlier requests, \<open>None\<close> when \<^verbatim>\<open>session.get\<close> raises (timeout,
  connection error); \<open>now n\<close> is the clock reading at that moment; \<open>can_write\<close> tells
  whether a file of the output directory can be opened for writing; the three \<open>soup\<close>
  functions stand for the HTML parser, which is not part of the repository, with \<open>None\<close>
  for an exception raised while the page is read.
\<close>

record env =
  http_get :: "nat \<Rightarrow> string \<Rightarrow> response option"
  now :: "nat \<Rightarrow> string"
  can_write :: "string \<Rightarrow> bool"
  soup_sizes :: "string \<Rightarrow> sizes_page"
  soup_photo_page :: "photo_info \<Rightarrow> string \<Rightarrow> page_fields option"
  soup_detail :: "string \<Rightarrow> detail_page option"

text \<open>
  What every collector acts on: the files of the photos directory (name to bytes) and
  the log of the URLs requested so far, oldest first.
\<close>

record world =
  photos_dir :: "string \<rightharpoonup> string"
  requests :: "string list"

text \<open>\<^verbatim>\<open>self.session.get(url, ...)\<close>: the request is logged and answered.\<close>

definition session_get :: "env \<Rightarrow> string \<Rightarrow> 'a world_scheme \<Rightarrow> response option \<times> 'a world_scheme" where
  "session_get e url w =
     (http_get e (length (requests w)) url, w\<lparr>requests := requests w @ [url]\<rparr>)"

text \<open>
  \<^verbatim>\<open>response = self.session.get(url); response.raise_for_status()\<close>: \<open>None\<close> when either
  raises.
\<close>

definition fetch :: "env \<Rightarrow> string \<Rightarrow> 'a world_scheme \<Rightarrow> response option \<times> 'a world_scheme" where
  "fetch e url w =
     (case session_get e url w of
        (None, w1) \<Rightarrow> (None, w1)
      | (Some response, w1) \<Rightarrow> (if resp_ok response then Some response else None, w1))"

section \<open>File names\<close>

definition is_filename_char :: "char \<Rightarrow> bool" where
  "is_filename_char c =
     (is_lower c \<or> is_upper c \<or> is_digit c \<or> c = CHR ''_'' \<or> c = CHR ''-'')"

text \<open>\<^verbatim>\<open>re.sub(r'[^a-zA-Z0-9_-]', '_', name)\<close>.\<close>

definition clean_name :: "string \<Rightarrow> string" where
  "clean_name name = map (\<lambda>c. if is_filename_char c then c else CHR ''_'') name"

text \<open>
  \<^verbatim>\<open>f"flickr_{photo_id}_{clean_username}.jpg"\<close> of the enhanced collector and of the API
  collector.
\<close>

definition enhanced_filename :: "string \<Rightarrow> string \<Rightarrow> string" where
  "enhanced_filename photo_id username =
     ''flickr_'' @ photo_id @ ''_'' @ clean_name username @ ''.jpg''"

text \<open>
  The file name of \<^verbatim>\<open>FlickrScraper.download_photo\<close>: the extension is \<^verbatim>\<open>png\<close> when the
  image URL contains \<^verbatim>\<open>.png\<close>, and only the spaces of the photographer's name are
  replaced.
\<close>

definition basic_ext :: "string \<Rightarrow> string" where
  "basic_ext img_url = (if py_in ''.png'' img_url then ''png'' else ''jpg'')"

definition basic_filename :: "string \<Rightarrow> string \<Rightarrow> string \<Rightarrow> string" where
  "basic_filename photo_id photographer img_url =
     ''flickr_'' @ photo_id @ ''_'' @ replace_char CHR '' '' ''_'' photographer
       @ ''.'' @ basic_ext img_url"

text \<open>The file name as the specification words it: site, id, sanitized owner, extension.\<close>

definition spec_filename :: "string \<Rightarrow> string \<Rightarrow> string \<Rightarrow> string \<Rightarrow> string" where
  "spec_filename site photo_id owner ext =
     site @ ''_'' @ photo_id @ ''_'' @ clean_name owner @ ''.'' @ ext"

section \<open>The enhanced collector (EnhancedFlickrScraper)\<close>

text \<open>
  One record of the ledger: the \<^verbatim>\<open>metadata\<close> dictionary built by
  \<^verbatim>\<open>get_photo_metadata\<close>, with the keys added by \<^verbatim>\<open>download_photo_with_metadata\<close>
  absent until they are set.
\<close>

record metadata_entry =
  md_photo_id :: string
  md_username :: string
  md_photo_url :: string
  md_page :: page_fields
  md_filename :: "string option"
  md_downloaded_at :: "string option"
  md_file_size :: "nat option"
  md_download_url :: "string option"
  md_attribution :: "string option"
  md_attribution_html :: "string option"

text \<open>The file \<^verbatim>\<open>metadata.json\<close>: absent, not loadable, or an array of records.\<close>

datatype json_file = Missing | Unreadable | Entries "metadata_entry list"

text \<open>
  The state of the collector: the output directory (\<open>photos_dir\<close>, \<open>metadata_file\<close>,
  \<open>failed_file\<close>), the request log, and the attributes \<^verbatim>\<open>self.metadata\<close> and
  \<^verbatim>\<open>self.failed_downloads\<close>.
\<close>

record enhanced = world +
  metadata_file :: json_file
  failed_file :: "string list option"
  metadata :: "metadata_entry list"
  failed_downloads :: "string list"

text \<open>
  \<^verbatim>\<open>__init__\<close>: the ledger is loaded from \<^verbatim>\<open>metadata.json\<close> when the file exists and
  can be loaded, and is empty otherwise.
\<close>

definition init :: "(string \<rightharpoonup> string) \<Rightarrow> json_file \<Rightarrow> string list option \<Rightarrow> enhanced" where
  "init photos mfile ffile =
     \<lparr>photos_dir = photos, requests = [],
      metadata_file = mfile, failed_file = ffile,
      metadata = (case mfile of Entries es \<Rightarrow> es | _ \<Rightarrow> []),
      failed_downloads = []\<rparr>"

text \<open>
  \<^verbatim>\<open>get_photo_metadata\<close>: everything after the first three lines is inside
  \<^verbatim>\<open>try\<close>, and \<^verbatim>\<open>except Exception\<close> returns \<open>None\<close>.
\<close>

definition get_photo_metadata :: "env \<Rightarrow> photo_info \<Rightarrow> enhanced \<Rightarrow> metadata_entry option \<times> enhanced" where
  "get_photo_metadata e photo_info st =
     (case fetch e (pi_url photo_info) st of
        (None, st1) \<Rightarrow> (None, st1)
      | (Some response, st1) \<Rightarrow>
          (case soup_photo_page e photo_info (resp_body response) of
             None \<Rightarrow> (None, st1)
           | Some pf \<Rightarrow>
               (Some \<lparr>md_photo_id = pi_id photo_info,
                      md_username = pi_username photo_info,
                      md_photo_url = pi_url photo_info,
                      md_page = pf,
                      md_filename = None, md_downloaded_at = None, md_file_size = None,
                      md_download_url = None, md_attribution = None,
                      md_attribution_html = None\<rparr>, st1)))"

text \<open>ASCII lower case, as \<^verbatim>\<open>str.lower\<close> acts on the letters the scripts test for.\<close>

definition lower_char :: "char \<Rightarrow> char" where
  "lower_char c = (if is_upper c then char_of (of_char c + (32::nat)) else c)"

text \<open>
  The loop over the links of the sizes page: the first link whose text contains
  \<^verbatim>\<open>download\<close> or \<^verbatim>\<open>original\<close> and whose \<^verbatim>\<open>href\<close> starts with \<^verbatim>\<open>//\<close> or
  \<^verbatim>\<open>http\<close>.
\<close>

fun find_download_url :: "(string \<times> string) list \<Rightarrow> string option" where
  "find_download_url [] = None"
| "find_download_url ((href, txt) # links) =
     (let link_text = map lower_char txt
      in if py_in ''download'' link_text \<or> py_in ''original'' link_text
         then (if prefix ''//'' href then Some (''https:'' @ href)
               else if prefix ''http'' href then Some href
               else find_download_url links)
         else find_download_url links)"

text \<open>The displayed image, used when no download link was found.\<close>

definition displayed_image :: "sizes_page \<Rightarrow> string option" where
  "displayed_image page =
     (case sp_allsizes_src page of
        None \<Rightarrow> None
      | Some src \<Rightarrow>
          if src = [] then None
          else Some (if prefix ''//'' src then ''https:'' @ src else src))"

definition final_url_of :: "sizes_page \<Rightarrow> string option" where
  "final_url_of page =
     (case find_download_url (sp_links page) of
        Some download_url \<Rightarrow> Some download_url
      | None \<Rightarrow> displayed_image page)"

text \<open>The \<^verbatim>\<open>except\<close> branch of \<^verbatim>\<open>download_photo_with_metadata\<close>, and its early exit.\<close>

definition download_failed :: "string \<Rightarrow> enhanced \<Rightarrow> bool \<times> enhanced" where
  "download_failed photo_id st =
     (False, st\<lparr>failed_downloads := failed_downloads st @ [photo_id]\<rparr>)"

text \<open>
  \<^verbatim>\<open>self.metadata.append(metadata)\<close> followed by the dump of the whole ledger to
  \<^verbatim>\<open>metadata.json\<close>; when the file cannot be written the exception reaches the
  \<^verbatim>\<open>except\<close> branch with the record already appended in memory.
\<close>

definition append_and_save :: "env \<Rightarrow> string \<Rightarrow> metadata_entry \<Rightarrow> enhanced \<Rightarrow> bool \<times> enhanced" where
  "append_and_save e photo_id m st =
     (let st1 = st\<lparr>metadata := metadata st @ [m]\<rparr>
      in if can_write e ''metadata.json''
         then (True, st1\<lparr>metadata_file := Entries (metadata st1)\<rparr>)
         else download_failed photo_id st1)"

definition dquote :: string where
  "dquote = [CHR 0x22]"

definition download_photo_with_metadata ::
    "env \<Rightarrow> photo_info \<Rightarrow> metadata_entry \<Rightarrow> enhanced \<Rightarrow> bool \<times> enhanced" where
  "download_photo_with_metadata e photo_info m st =
     (let photo_id = pi_id photo_info;
          username = pi_username photo_info;
          sizes_url = ''https://www.flickr.com/photos/'' @ username @ ''/'' @ photo_id @ ''/sizes/''
      in case fetch e sizes_url st of
           (None, st1) \<Rightarrow> download_failed photo_id st1
         | (Some response, st1) \<Rightarrow>
             (case final_url_of (soup_sizes e (resp_body response)) of
                None \<Rightarrow> download_failed photo_id st1
              | Some final_url \<Rightarrow>
                  (let filename = enhanced_filename photo_id username
                   in case photos_dir st1 filename of
                        Some bytes \<Rightarrow>
                          if photo_id \<notin> set (map md_photo_id (metadata st1))
                          then append_and_save e photo_id
                                 (m\<lparr>md_filename := Some filename,
                                    md_downloaded_at := Some (now e (length (requests st1))),
                                    md_file_size := Some (length bytes)\<rparr>) st1
                          else (True, st1)
                      | None \<Rightarrow>
                          (case fetch e final_url st1 of
                             (None, st2) \<Rightarrow> download_failed photo_id st2
                           | (Some img_response, st2) \<Rightarrow>
                               if \<not> can_write e filename then download_failed photo_id st2
                               else
                                 (let st3 = st2\<lparr>photos_dir :=
                                              (photos_dir st2)(filename \<mapsto> resp_body img_response)\<rparr>;
                                      photographer = pf_photographer_name (md_page m)
                                  in append_and_save e photo_id
                                       (m\<lparr>md_filename := Some filename,
                                          md_downloaded_at := Some (now e (length (requests st2))),
                                          md_file_size := Some (length (resp_body img_response)),
                                          md_download_url := Some final_url,
                                          md_attribution :=
                                            Some (''Photo by '' @ photographer @ '' on Flickr''),
                                          md_attribution_html :=
                                            Some (''Photo by <a href='' @ dquote @ pi_url photo_info
                                                  @ dquote @ ''>'' @ photographer
                                                  @ ''</a> on Flickr'')\<rparr>) st3)))))"

text \<open>
  The loop of \<^verbatim>\<open>scrape\<close> with its two counters \<^verbatim>\<open>photos_downloaded\<close> and
  \<^verbatim>\<open>photos_skipped\<close>.
\<close>

fun scrape_loop :: "env \<Rightarrow> photo_info list \<Rightarrow> nat \<times> nat \<Rightarrow> enhanced \<Rightarrow> (nat \<times> nat) \<times> enhanced" where
  "scrape_loop e [] counts st = (counts, st)"
| "scrape_loop e (photo_info # rest) (photos_downloaded, photos_skipped) st =
     (case get_photo_metadata e photo_info st of
        (Some m, st1) \<Rightarrow>
          (case download_photo_with_metadata e photo_info m st1 of
             (True, st2) \<Rightarrow> scrape_loop e rest (photos_downloaded + 1, photos_skipped) st2
           | (False, st2) \<Rightarrow> scrape_loop e rest (photos_downloaded, photos_skipped + 1) st2)
      | (None, st1) \<Rightarrow>
          scrape_loop e rest (photos_downloaded, photos_skipped + 1)
            (st1\<lparr>failed_downloads := failed_downloads st1 @ [pi_id photo_info]\<rparr>))"

text \<open>How a call ends: it returns, or an exception leaves it.\<close>

datatype outcome = Returned | Raised

text \<open>
  The statistics at the end of \<^verbatim>\<open>scrape\<close> (lines 391 to 394) read every record of
  \<^verbatim>\<open>self.metadata\<close>. The second of them evaluates
  \<^verbatim>\<open>m.get('location', {}).get('latitude')\<close>: the key \<^verbatim>\<open>location\<close> is present in every
  record, with the value \<open>None\<close> when no location was found, and \<^verbatim>\<open>None.get\<close> raises
  \<^verbatim>\<open>AttributeError\<close>. The counts themselves are only printed.
\<close>

definition statistics_raise :: "metadata_entry list \<Rightarrow> bool" where
  "statistics_raise ms = list_ex (\<lambda>m. pf_location (md_page m) = None) ms"

text \<open>
  \<^verbatim>\<open>scrape\<close>, with the state in which it ends. With no photo in the listing it returns
  at once. After the loop the list of failures, when not empty, is written to
  \<^verbatim>\<open>failed_downloads.json\<close>, and then the statistics are computed; both are outside any
  \<^verbatim>\<open>try\<close>.
\<close>

definition scrape :: "env \<Rightarrow> int option \<Rightarrow> string \<Rightarrow> enhanced \<Rightarrow> outcome \<times> enhanced" where
  "scrape e max_photos html_content st =
     (let photos = extract_photos_from_html max_photos html_content
      in if photos = [] then (Returned, st)
         else (case scrape_loop e photos (0, 0) st of
                 (counts, st1) \<Rightarrow>
                   if failed_downloads st1 \<noteq> [] \<and> \<not> can_write e ''failed_downloads.json''
                   then (Raised, st1)
                   else (let st2 = (if failed_downloads st1 \<noteq> []
                                    then st1\<lparr>failed_file := Some (failed_downloads st1)\<rparr>
                                    else st1)
                         in if statistics_raise (metadata st2) then (Raised, st2)
                            else (Returned, st2))))"

text \<open>
  One run of the program over an output directory left by an earlier run, however that
  run ended.
\<close>

definition run :: "env \<Rightarrow> int option \<Rightarrow> string \<Rightarrow> enhanced \<Rightarrow> outcome \<times> enhanced" where
  "run e max_photos html_content before =
     scrape e max_photos html_content
       (init (photos_dir before) (metadata_file before) (failed_file before))"

text \<open>The ids of the persisted ledger.\<close>

definition ledger_ids :: "enhanced \<Rightarrow> string list" where
  "ledger_ids st = (case metadata_file st of Entries es \<Rightarrow> map md_photo_id es | _ \<Rightarrow> [])"

section \<open>The basic collector (FlickrScraper)\<close>

text \<open>
  The state of the basic collector and of the API collector: the photos directory, the
  request log and \<^verbatim>\<open>self.attribution_data\<close>, a list of dictionaries from keys to
  strings (or \<open>None\<close>).
\<close>

record collector = world +
  attribution_data :: "(string \<times> string option) list list"

text \<open>The dictionary returned by \<^verbatim>\<open>get_photo_details\<close>.\<close>

record photo_details =
  pd_id :: string
  pd_url :: string
  pd_title :: string
  pd_photographer :: string
  pd_description :: "string option"
  pd_license :: string
  pd_download_url :: "string option"
  pd_image_url :: "string option"

text \<open>\<^verbatim>\<open>x or default\<close> for a string that may be \<open>None\<close>: the empty string is falsy as well.\<close>

definition py_or :: "string option \<Rightarrow> string \<Rightarrow> string" where
  "py_or x d = (case x of None \<Rightarrow> d | Some s \<Rightarrow> if s = [] then d else s)"

definition truthy :: "string option \<Rightarrow> bool" where
  "truthy x = (case x of None \<Rightarrow> False | Some s \<Rightarrow> s \<noteq> [])"

text \<open>
  The image URL of the detail page: the \<^verbatim>\<open>src\<close> of the main photo when there is such
  an element, otherwise the \<^verbatim>\<open>og:image\<close> content; when truthy it is upgraded to the
  largest size and given a scheme.
\<close>

definition detail_image_url :: "detail_page \<Rightarrow> string option" where
  "detail_image_url page =
     (let img_url = (case dp_main_photo_src page of
                       Some src \<Rightarrow> src
                     | None \<Rightarrow> (case dp_og_image page of Some content \<Rightarrow> content | None \<Rightarrow> None))
      in case img_url of
           None \<Rightarrow> None
         | Some u \<Rightarrow>
             if u = [] then Some u
             else (let u1 = upgrade_size u
                   in Some (if prefix ''http'' u1 then u1 else ''https:'' @ u1)))"

definition detail_download_url :: "string \<Rightarrow> detail_page \<Rightarrow> string option" where
  "detail_download_url photo_id page =
     (let download_url = (case dp_download_href page of Some href \<Rightarrow> href | None \<Rightarrow> None)
      in if truthy download_url then download_url
         else (case dp_secret page of
                 Some secret \<Rightarrow>
                   Some (''/photo_download.gne?id='' @ photo_id @ ''&secret='' @ secret
                         @ ''&size=o&source=photoPageEngagement'')
               | None \<Rightarrow> download_url))"

definition details_of :: "photo_info \<Rightarrow> detail_page \<Rightarrow> photo_details" where
  "details_of photo_info page =
     \<lparr>pd_id = pi_id photo_info,
      pd_url = pi_url photo_info,
      pd_title = py_or (case dp_photo_title page of Some t \<Rightarrow> Some t | None \<Rightarrow> dp_og_title page)
                   (''Untitled_'' @ pi_id photo_info),
      pd_photographer =
        py_or (case dp_owner_name page of Some t \<Rightarrow> Some t | None \<Rightarrow> dp_username page)
          ''Unknown'',
      pd_description = dp_photo_desc page,
      pd_license =
        py_or (case dp_license_text page of
                 Some license_text \<Rightarrow> normalize_license license_text
               | None \<Rightarrow> None)
          ''CC (Commercial Use)'',
      pd_download_url = detail_download_url (pi_id photo_info) page,
      pd_image_url = detail_image_url page\<rparr>"

text \<open>\<^verbatim>\<open>get_photo_details\<close>: the whole body is inside \<^verbatim>\<open>try\<close>; any exception gives \<open>None\<close>.\<close>

definition get_photo_details :: "env \<Rightarrow> photo_info \<Rightarrow> collector \<Rightarrow> photo_details option \<times> collector" where
  "get_photo_details e photo_info st =
     (case fetch e (pi_url photo_info) st of
        (None, st1) \<Rightarrow> (None, st1)
      | (Some response, st1) \<Rightarrow>
          (case soup_detail e (resp_body response) of
             None \<Rightarrow> (None, st1)
           | Some page \<Rightarrow> (Some (details_of photo_info page), st1)))"

text \<open>\<^verbatim>\<open>s.rsplit('/', 2)[0]\<close>: the string without its last two slash-separated segments.\<close>

definition drop_last_segment :: "string \<Rightarrow> string" where
  "drop_last_segment s =
     (if CHR ''/'' \<in> set s then rev (tl (dropWhile (\<lambda>c. c \<noteq> CHR ''/'') (rev s))) else s)"

definition rsplit2_head :: "string \<Rightarrow> string" where
  "rsplit2_head s = drop_last_segment (drop_last_segment s)"

definition basic_attribution :: "env \<Rightarrow> nat \<Rightarrow> string \<Rightarrow> photo_details \<Rightarrow> (string \<times> string option) list" where
  "basic_attribution e n filename pd =
     [(''filename'', Some filename),
      (''photo_id'', Some (pd_id pd)),
      (''title'', Some (pd_title pd)),
      (''photographer'', Some (pd_photographer pd)),
      (''photographer_profile'', Some (rsplit2_head (pd_url pd))),
      (''photo_url'', Some (pd_url pd)),
      (''license'', Some (pd_license pd)),
      (''description'', pd_description pd),
      (''attribution'', Some (''Photo by '' @ pd_photographer pd @ '' on Flickr (''
                               @ pd_license pd @ '')'')),
      (''downloaded_at'', Some (now e n))]"

text \<open>
  \<^verbatim>\<open>FlickrScraper.download_photo\<close>, called by \<^verbatim>\<open>scrape\<close> with the dictionary that
  \<^verbatim>\<open>get_photo_details\<close> returned.
\<close>

definition download_photo :: "env \<Rightarrow> photo_details \<Rightarrow> collector \<Rightarrow> bool \<times> collector" where
  "download_photo e pd st =
     (case pd_image_url pd of
        None \<Rightarrow> (False, st)
      | Some img_url \<Rightarrow>
          if img_url = [] then (False, st)
          else
            (let filename = basic_filename (pd_id pd) (pd_photographer pd) img_url
             in case photos_dir st filename of
                  Some bytes \<Rightarrow> (True, st)
                | None \<Rightarrow>
                    (case fetch e (if prefix ''//'' img_url then ''https:'' @ img_url else img_url) st of
                       (None, st1) \<Rightarrow> (False, st1)
                     | (Some response, st1) \<Rightarrow>
                         if \<not> can_write e filename then (False, st1)
                         else (True,
                               st1\<lparr>photos_dir := (photos_dir st1)(filename \<mapsto> resp_body response),
                                   attribution_data := attribution_data st1
                                     @ [basic_attribution e (length (requests st1)) filename pd]\<rparr>))))"

section \<open>The API collector (FlickrAPIScraper)\<close>

text \<open>The dictionary returned by \<^verbatim>\<open>get_photo_info_direct\<close>.\<close>

record api_photo_info =
  ap_id :: string
  ap_title :: string
  ap_photographer :: string
  ap_photo_url :: string
  ap_image_url :: "string option"
  ap_download_url :: "string option"
  ap_license :: string

definition api_attribution :: "env \<Rightarrow> nat \<Rightarrow> string \<Rightarrow> api_photo_info \<Rightarrow> (string \<times> string option) list" where
  "api_attribution e n filename info =
     [(''filename'', Some filename),
      (''photo_id'', Some (ap_id info)),
      (''title'', Some (ap_title info)),
      (''photographer'', Some (ap_photographer info)),
      (''photo_url'', Some (ap_photo_url info)),
      (''license'', Some (ap_license info)),
      (''attribution'', Some (''Photo by '' @ ap_photographer info @ '' on Flickr (''
                               @ ap_license info @ '')'')),
      (''attribution_html'', Some (''Photo by <a href='' @ dquote @ ap_photo_url info @ dquote
                                    @ ''>'' @ ap_photographer info @ ''</a> on Flickr'')),
      (''downloaded_at'', Some (now e n))]"

text \<open>
  \<^verbatim>\<open>FlickrAPIScraper.download_photo\<close>. The first request goes to the download URL when
  there is one and to the image URL otherwise; when the final URL of the answer contains
  \<^verbatim>\<open>login\<close> the image URL is requested, and \<^verbatim>\<open>raise_for_status\<close> is called on the
  answer that is current then.
\<close>

definition api_download_photo :: "env \<Rightarrow> api_photo_info \<Rightarrow> collector \<Rightarrow> bool \<times> collector" where
  "api_download_photo e info st =
     (case ap_image_url info of
        None \<Rightarrow> (False, st)
      | Some image_url \<Rightarrow>
          if image_url = [] then (False, st)
          else
            (let filename = enhanced_filename (ap_id info) (ap_photographer info)
             in case photos_dir st filename of
                  Some bytes \<Rightarrow> (True, st)
                | None \<Rightarrow>
                    (let url_to_try = py_or (ap_download_url info) image_url
                     in case session_get e url_to_try st of
                          (None, st1) \<Rightarrow> (False, st1)
                        | (Some response, st1) \<Rightarrow>
                            (case (if py_in ''login'' (resp_url response) \<and> image_url \<noteq> []
                                   then session_get e image_url st1
                                   else (Some response, st1)) of
                               (None, st2) \<Rightarrow> (False, st2)
                             | (Some response2, st2) \<Rightarrow>
                                 if \<not> resp_ok response2 then (False, st2)
                                 else if \<not> can_write e filename then (False, st2)
                                 else (True,
                                       st2\<lparr>photos_dir :=
                                             (photos_dir st2)(filename \<mapsto> resp_body response2),
                                           attribution_data := attribution_data st2
                                             @ [api_attribution e (length (requests st2)) filename info]\<rparr>)))))"

section \<open>Conditions on the environment, and example environments\<close>

text \<open>The request for \<open>url\<close>, made now, raises or is answered with an error status.\<close>

definition page_fetch_fails :: "env \<Rightarrow> string \<Rightarrow> 'a world_scheme \<Rightarrow> bool" where
  "page_fetch_fails e url w =
     (case http_get e (length (requests w)) url of None \<Rightarrow> True | Some r \<Rightarrow> \<not> resp_ok r)"

text \<open>The sizes page of a photo is fetched and a download URL is found on it.\<close>

definition sizes_url_of :: "photo_info \<Rightarrow> string" where
  "sizes_url_of photo_info =
     ''https://www.flickr.com/photos/'' @ pi_username photo_info @ ''/'' @ pi_id photo_info
       @ ''/sizes/''"

definition sizes_page_located :: "env \<Rightarrow> photo_info \<Rightarrow> 'a world_scheme \<Rightarrow> bool" where
  "sizes_page_located e photo_info w =
     (case http_get e (length (requests w)) (sizes_url_of photo_info) of
        None \<Rightarrow> False
      | Some r \<Rightarrow> resp_ok r \<and> final_url_of (soup_sizes e (resp_body r)) \<noteq> None)"

definition example_page :: page_fields where
  "example_page =
     \<lparr>pf_title = ''Lake'', pf_description = None,
      pf_location = Some [(''latitude'', ''54.45''), (''longitude'', ''-3.07'')], pf_tags = [],
      pf_date_taken = None, pf_photographer_name = ''J. Doe'', pf_views = None,
      pf_license = ''CC (See Flickr for specific license)''\<rparr>"

text \<open>
  Every request is answered with an image, every page parses (with the coordinates of
  the example page), every file can be written.
\<close>

definition net_up :: env where
  "net_up =
     \<lparr>http_get = (\<lambda>n url. Some \<lparr>resp_url = url, resp_ok = True, resp_body = ''JPEG''\<rparr>),
      now = (\<lambda>n. ''2024-01-01T00:00:00''),
      can_write = (\<lambda>path. True),
      soup_sizes = (\<lambda>body. \<lparr>sp_links = [],
                              sp_allsizes_src = Some ''//live.staticflickr.com/1/12345678_ab_b.jpg''\<rparr>),
      soup_photo_page = (\<lambda>photo_info body. Some example_page),
      soup_detail = (\<lambda>body. None)\<rparr>"

text \<open>Every request times out.\<close>

definition net_down :: env where
  "net_down = net_up\<lparr>http_get := (\<lambda>n url. None)\<rparr>"

text \<open>The first request is redirected to the login page; every later one times out.\<close>

definition login_response :: response where
  "login_response =
     \<lparr>resp_url = ''https://www.flickr.com/signin/login'', resp_ok = True, resp_body = ''<html>''\<rparr>"

definition net_login_only :: env where
  "net_login_only = net_up\<lparr>http_get := (\<lambda>n url. if n = 0 then Some login_response else None)\<rparr>"

text \<open>The first request is redirected to the login page; later ones are answered.\<close>

definition net_login_first :: env where
  "net_login_first =
     net_up\<lparr>http_get := (\<lambda>n url. if n = 0 then Some login_response
                                   else Some \<lparr>resp_url = url, resp_ok = True, resp_body = ''JPEG''\<rparr>)\<rparr>"

text \<open>The same, with photo pages on which no location is found.\<close>

definition net_up_no_location :: env where
  "net_up_no_location =
     net_up\<lparr>soup_photo_page := (\<lambda>photo_info body. Some (example_page\<lparr>pf_location := None\<rparr>))\<rparr>"

definition empty_dir :: enhanced where
  "empty_dir = init Map.empty Missing None"

definition empty_collector :: collector where
  "empty_collector = \<lparr>photos_dir = Map.empty, requests = [], attribution_data = []\<rparr>"

definition photo_jdoe :: photo_info where
  "photo_jdoe =
     \<lparr>pi_id = ''12345678'', pi_username = ''j.doe'',
      pi_url = ''https://www.flickr.com/photos/j.doe/12345678''\<rparr>"

definition entry_jdoe :: metadata_entry where
  "entry_jdoe =
     \<lparr>md_photo_id = ''12345678'', md_username = ''j.doe'',
      md_photo_url = ''https://www.flickr.com/photos/j.doe/12345678'',
      md_page = example_page,
      md_filename = None, md_downloaded_at = None, md_file_size = None,
      md_download_url = None, md_attribution = None, md_attribution_html = None\<rparr>"

definition details_jdoe :: photo_details where
  "details_jdoe =
     \<lparr>pd_id = ''12345678'', pd_url = ''https://www.flickr.com/photos/j.doe/12345678'',
      pd_title = ''Lake'', pd_photographer = ''J. Doe'', pd_description = None,
      pd_license = ''CC BY 2.0'', pd_download_url = None,
      pd_image_url = Some ''https://live.staticflickr.com/1/12345678_ab_b.jpg''\<rparr>"

definition api_jdoe :: api_photo_info where
  "api_jdoe =
     \<lparr>ap_id = ''12345678'', ap_title = ''Lake'', ap_photographer = ''j.doe'',
      ap_photo_url = ''https://www.flickr.com/photos/j.doe/12345678/'',
      ap_image_url = Some ''https://live.staticflickr.com/1/12345678_ab_b.jpg'',
      ap_download_url = Some ''https://www.flickr.com/photo_download.gne?id=12345678&secret=ab&size=o'',
      ap_license = ''CC BY/CC BY-SA (Commercial Use Allowed)''\<rparr>"

text \<open>Output directories in which the photo of the examples is already present.\<close>

definition dir_with_photo :: enhanced where
  "dir_with_photo = init (Map.empty(''flickr_12345678_j_doe.jpg'' \<mapsto> ''JPEG'')) Missing None"

definition collector_with_photo :: collector where
  "collector_with_photo =
     \<lparr>photos_dir = Map.empty(''flickr_12345678_j_doe.jpg'' \<mapsto> ''JPEG'',
                               ''flickr_12345678_J._Doe.jpg'' \<mapsto> ''JPEG''),
      requests = [], attribution_data = []\<rparr>"

text \<open>
  Two listing documents that link the same photo, one under the path alias of its owner
  and one under the owner's id.
\<close>

definition listing_alias :: string where
  "listing_alias = ''<a href=https://www.flickr.com/photos/j.doe/12345678>Lake</a>''"

definition listing_nsid :: string where
  "listing_nsid = ''<a href=https://www.flickr.com/photos/99999999@N00/12345678>Lake</a>''"

section \<open>Properties of the size upgrade\<close>

lemma is_lower_b: "is_lower CHR ''b''"
  by (simp add: is_lower_def)

lemma sub_token_intro:
  "is_lower c \<Longrightarrow> e \<in> set exts \<Longrightarrow> length e = 3 \<Longrightarrow>
   sub_token_at_end exts (p @ CHR ''_'' # c # CHR ''.'' # e) = Some (p @ ''_b.'' @ e)"
  by (simp add: sub_token_at_end_def is_size_token_def)

lemma sub_token_elim:
  assumes "sub_token_at_end exts s = Some r"
  shows "\<exists>p c e. s = p @ CHR ''_'' # c # CHR ''.'' # e \<and> is_lower c \<and> e \<in> set exts
           \<and> length e = 3 \<and> r = p @ ''_b.'' @ e"
proof -
  let ?t = "drop (length s - 6) s"
  from assms have len: "6 \<le> length s" and tok: "is_size_token exts ?t"
    and r: "r = take (length s - 6) s @ ''_b.'' @ drop 3 ?t"
    by (auto simp: sub_token_at_end_def Let_def split: if_splits)
  from tok obtain c e where t: "?t = CHR ''_'' # c # CHR ''.'' # e"
    and c: "is_lower c" and e: "e \<in> set exts"
    by (auto simp: is_size_token_def split: list.splits)
  from len have "length ?t = 6" by simp
  with t have le: "length e = 3" by simp
  have "s = take (length s - 6) s @ ?t" by simp
  with t have "s = take (length s - 6) s @ CHR ''_'' # c # CHR ''.'' # e" by simp
  moreover from r t have "r = take (length s - 6) s @ ''_b.'' @ e" by simp
  ultimately show ?thesis using c e le by blast
qed

lemma sub_token_newline:
  "length e = 3 \<Longrightarrow> sub_token_at_end exts (p @ ''_b.'' @ e @ [CHR 0x0A]) = None"
  by (simp add: sub_token_at_end_def is_size_token_def Let_def split: list.splits)

lemma sub_token_idem:
  "sub_token_at_end exts s = Some r \<Longrightarrow> sub_token_at_end exts r = Some r"
  using sub_token_elim[of exts s r] sub_token_intro[OF is_lower_b] by fastforce

lemma re_sub_size_idem: "re_sub_size exts (re_sub_size exts url) = re_sub_size exts url"
proof (cases "sub_token_at_end exts url")
  case (Some r)
  then show ?thesis using sub_token_idem[OF Some] by (simp add: re_sub_size_def)
next
  case None
  show ?thesis
  proof (cases "url \<noteq> [] \<and> last url = CHR 0x0A")
    case False
    with None show ?thesis by (auto simp add: re_sub_size_def)
  next
    case True
    show ?thesis
    proof (cases "sub_token_at_end exts (butlast url)")
      case N2: None
      with None True show ?thesis by (simp add: re_sub_size_def)
    next
      case (Some r)
      have first: "re_sub_size exts url = r @ [CHR 0x0A]"
        using None True Some by (simp add: re_sub_size_def)
      from sub_token_elim[OF Some] obtain p c e
        where c: "is_lower c" and e: "length e = 3" and r: "r = p @ ''_b.'' @ e" by blast
      have n: "sub_token_at_end exts (r @ [CHR 0x0A]) = None"
        using sub_token_newline[OF e, of exts p] r by simp
      have "re_sub_size exts (r @ [CHR 0x0A]) = r @ [CHR 0x0A]"
        using n sub_token_idem[OF Some] by (simp add: re_sub_size_def)
      with first show ?thesis by simp
    qed
  qed
qed

text \<open>
  C5. An image URL that ends in an underscore, one lowercase letter and \<^verbatim>\<open>.jpg\<close> is
  rewritten, by the rule of either collector, to the same URL with the letter replaced
  by \<^verbatim>\<open>b\<close>; the URL \<^verbatim>\<open>.../1234_abcdef_n.jpg\<close> becomes \<^verbatim>\<open>.../1234_abcdef_b.jpg\<close>.
\<close>

theorem C5_size_upgrade:
  "is_lower c \<Longrightarrow>
     upgrade_size (p @ CHR ''_'' # c # ''.jpg'') = p @ ''_b.jpg'' \<and>
     upgrade_size_api (p @ CHR ''_'' # c # ''.jpg'') = p @ ''_b.jpg''"
  using sub_token_intro[of c "''jpg''" "[''jpg'', ''png'']" p]
        sub_token_intro[of c "''jpg''" "[''jpg'']" p]
  by (simp add: upgrade_size_def upgrade_size_api_def re_sub_size_def)

theorem C5_size_upgrade_witness:
  "is_lower CHR ''n'' \<and>
   upgrade_size ''.../1234_abcdef_n.jpg'' = ''.../1234_abcdef_b.jpg'' \<and>
   upgrade_size_api ''.../1234_abcdef_n.jpg'' = ''.../1234_abcdef_b.jpg''"
proof -
  have h: "is_lower CHR ''n''" by (simp add: is_lower_def)
  show ?thesis using h C5_size_upgrade[OF h, of "''.../1234_abcdef''"] by simp
qed

text \<open>
  C9. The size upgrade is idempotent, in both collectors: rewriting a URL that has
  already been rewritten changes nothing, and a URL that ends in \<^verbatim>\<open>_b.jpg\<close> is left
  as it is.
\<close>

theorem C9_size_upgrade_idempotent:
  "upgrade_size (upgrade_size url) = upgrade_size url \<and>
   upgrade_size_api (upgrade_size_api url) = upgrade_size_api url \<and>
   upgrade_size (p @ ''_b.jpg'') = p @ ''_b.jpg'' \<and>
   upgrade_size_api (p @ ''_b.jpg'') = p @ ''_b.jpg''"
proof -
  have idem: "upgrade_size (upgrade_size url) = upgrade_size url"
    "upgrade_size_api (upgrade_size_api url) = upgrade_size_api url"
    by (simp_all add: upgrade_size_def upgrade_size_api_def re_sub_size_idem)
  have "sub_token_at_end [''jpg'', ''png''] (p @ ''_b.jpg'') = Some (p @ ''_b.jpg'')"
    using sub_token_intro[OF is_lower_b, of "''jpg''" "[''jpg'', ''png'']" p] by simp
  then have b1: "upgrade_size (p @ ''_b.jpg'') = p @ ''_b.jpg''"
    by (simp add: upgrade_size_def re_sub_size_def)
  have "sub_token_at_end [''jpg''] (p @ ''_b.jpg'') = Some (p @ ''_b.jpg'')"
    using sub_token_intro[OF is_lower_b, of "''jpg''" "[''jpg'']" p] by simp
  then have b2: "upgrade_size_api (p @ ''_b.jpg'') = p @ ''_b.jpg''"
    by (simp add: upgrade_size_api_def re_sub_size_def)
  from idem b1 b2 show ?thesis by blast
qed

section \<open>Properties of the candidate lister\<close>

lemma filter_first_occurrences:
  "filter P (first_occurrences xs) = first_occurrences (filter P xs)"
proof (induction xs)
  case Nil
  show ?case by simp
next
  case (Cons x xs)
  show ?case
  proof (cases "P x")
    case True
    have "filter P (filter (\<lambda>y. y \<noteq> x) (first_occurrences xs))
            = filter (\<lambda>y. y \<noteq> x) (filter P (first_occurrences xs))"
      by (simp add: conj_commute)
    with True Cons show ?thesis by simp
  next
    case False
    have "filter P (filter (\<lambda>y. y \<noteq> x) (first_occurrences xs)) = filter P (first_occurrences xs)"
      using False by (auto intro: filter_cong)
    with False Cons show ?thesis by simp
  qed
qed

lemma set_first_occurrences: "set (first_occurrences xs) = set xs"
  by (induction xs) auto

lemma distinct_first_occurrences: "distinct (first_occurrences xs)"
  by (induction xs) (auto simp: set_first_occurrences)

lemma first_index_Cons:
  "first_index a (x # xs) = (if a = x then 0 else Suc (first_index a xs))"
  by (auto simp: first_index_def)

lemma sorted_first_occurrences:
  "sorted_wrt (\<lambda>a b. first_index a xs < first_index b xs) (first_occurrences xs)"
proof (induction xs)
  case Nil
  show ?case by simp
next
  case (Cons x xs)
  let ?f = "filter (\<lambda>y. y \<noteq> x) (first_occurrences xs)"
  have "sorted_wrt (\<lambda>a b. first_index a xs < first_index b xs) ?f"
    using Cons by (rule sorted_wrt_filter)
  then have "sorted_wrt (\<lambda>a b. first_index a (x # xs) < first_index b (x # xs)) ?f"
    by (rule sorted_wrt_mono_rel[rotated]) (auto simp: first_index_Cons)
  then show ?case by (auto simp: first_index_Cons)
qed

lemma dedup_loop_ids:
  "map pi_id (dedup_loop ms seen acc)
     = map pi_id acc @ first_occurrences (filter (\<lambda>i. i \<notin> seen) (map snd ms))"
proof (induction ms seen acc rule: dedup_loop.induct)
  case (1 seen photos)
  show ?case by simp
next
  case (2 username photo_id matches seen photos)
  have eq: "filter (\<lambda>y. y \<noteq> photo_id) (first_occurrences (filter (\<lambda>i. i \<notin> seen) (map snd matches)))
        = first_occurrences (filter (\<lambda>i. i \<notin> insert photo_id seen) (map snd matches))"
    by (simp add: filter_first_occurrences conj_commute)
  show ?case using 2 eq by (cases "photo_id \<in> seen") simp_all
qed

lemma dedup_ids:
  "map pi_id (dedup_loop (findall_photo_urls doc) {} []) = first_occurrences (map snd (findall_photo_urls doc))"
  by (simp add: dedup_loop_ids)

lemma py_slice_to_take: "\<exists>k. py_slice_to n xs = take k xs"
  by (auto simp: py_slice_to_def)

lemma slice_option_take:
  "\<exists>k. (case mx of None \<Rightarrow> xs | Some n \<Rightarrow> if c n then py_slice_to n xs else xs) = take k xs"
proof -
  have full: "\<exists>k. xs = take k xs"
    by (rule exI[of _ "length xs"]) simp
  show ?thesis
  proof (cases mx)
    case None
    with full show ?thesis by simp
  next
    case (Some n)
    with full py_slice_to_take[of n xs] show ?thesis by (cases "c n") simp_all
  qed
qed

lemma extract_take:
  "\<exists>k. map pi_id (extract_photos_from_html mx doc)
         = take k (first_occurrences (map snd (findall_photo_urls doc)))"
proof -
  let ?full = "dedup_loop (findall_photo_urls doc) {} []"
  obtain k where "extract_photos_from_html mx doc = take k ?full"
    using slice_option_take[where mx=mx and xs="?full" and c="\<lambda>n. n \<noteq> 0"]
    by (auto simp: extract_photos_from_html_def Let_def)
  then have "map pi_id (extract_photos_from_html mx doc) = take k (map pi_id ?full)"
    by (simp add: take_map)
  then show ?thesis unfolding dedup_ids by blast
qed

lemma html_extract_take:
  "\<exists>k. map pi_id (html_extract_photos_from_html mx doc)
         = take k (first_occurrences (map snd (findall_photo_urls doc)))"
proof -
  let ?full = "dedup_loop (findall_photo_urls doc) {} []"
  obtain k where "html_extract_photos_from_html mx doc = take k ?full"
    using slice_option_take[where mx=mx and xs="?full" and c="\<lambda>n. True"]
    by (cases mx) (auto simp: html_extract_photos_from_html_def Let_def)
  then have "map pi_id (html_extract_photos_from_html mx doc) = take k (map pi_id ?full)"
    by (simp add: take_map)
  then show ?thesis unfolding dedup_ids by blast
qed

lemma take_first_occurrences:
  assumes "out = take k (first_occurrences ids)"
  shows "distinct out \<and> sorted_wrt (\<lambda>a b. first_index a ids < first_index b ids) out
         \<and> prefix out (first_occurrences ids) \<and> set out \<subseteq> set ids"
  unfolding assms
  using distinct_first_occurrences[of ids] sorted_first_occurrences[of ids]
        set_take_subset[of k "first_occurrences ids"]
  by (simp add: take_is_prefix set_first_occurrences)

text \<open>
  C1. Whatever the listing document and the limit, the ids of the references returned by
  the candidate lister (of the enhanced collector and of the HTML collector) are pairwise
  different, they stand in the order in which the ids first occur among the matches of the
  document, and they are an initial segment of the ids of the document with repetitions
  removed.
\<close>

theorem C1_lister_distinct_first_occurrence:
  "distinct (map pi_id (extract_photos_from_html mx doc)) \<and>
   sorted_wrt (\<lambda>a b. first_index a (map snd (findall_photo_urls doc))
                     < first_index b (map snd (findall_photo_urls doc)))
     (map pi_id (extract_photos_from_html mx doc)) \<and>
   prefix (map pi_id (extract_photos_from_html mx doc))
     (first_occurrences (map snd (findall_photo_urls doc))) \<and>
   distinct (map pi_id (html_extract_photos_from_html mx doc)) \<and>
   sorted_wrt (\<lambda>a b. first_index a (map snd (findall_photo_urls doc))
                     < first_index b (map snd (findall_photo_urls doc)))
     (map pi_id (html_extract_photos_from_html mx doc)) \<and>
   prefix (map pi_id (html_extract_photos_from_html mx doc))
     (first_occurrences (map snd (findall_photo_urls doc)))"
proof -
  obtain k where k: "map pi_id (extract_photos_from_html mx doc)
      = take k (first_occurrences (map snd (findall_photo_urls doc)))"
    using extract_take by blast
  obtain k' where k': "map pi_id (html_extract_photos_from_html mx doc)
      = take k' (first_occurrences (map snd (findall_photo_urls doc)))"
    using html_extract_take by blast
  show ?thesis
    using take_first_occurrences[OF k] take_first_occurrences[OF k'] by blast
qed

text \<open>
  C10. In the enhanced collector the limit cuts the list only when it is truthy: with
  the limit \<open>None\<close>, and with the limit \<open>0\<close>, the whole list of the loop is returned,
  one reference for each id of the document.
\<close>

theorem C10_limit_none_or_zero_keeps_all:
  "extract_photos_from_html None doc = dedup_loop (findall_photo_urls doc) {} [] \<and>
   extract_photos_from_html (Some 0) doc = dedup_loop (findall_photo_urls doc) {} [] \<and>
   map pi_id (extract_photos_from_html (Some 0) doc)
     = first_occurrences (map snd (findall_photo_urls doc))"
  by (simp add: extract_photos_from_html_def dedup_ids)

section \<open>Properties of the license normalization\<close>

lemma license_loop_find:
  "license_loop kvs t = List.find (\<lambda>v. label_matches v t) (map snd kvs)"
  by (induction kvs t rule: license_loop.induct) simp_all

lemma py_in_label_matches: "py_in v t \<Longrightarrow> label_matches v t"
  by (simp add: label_matches_def)

text \<open>
  C3, as amended. Normalization returns the first label of the table, in table order,
  that occurs in the license text, as it stands or after spaces are removed from both.
  A text that contains \<^verbatim>\<open>CC BY-SA 4.0\<close>, and in which none of the five labels listed
  before it matches, normalizes to the share-alike 4.0 label.
\<close>

theorem C3_first_matching_label:
  "normalize_license t = List.find (\<lambda>v. label_matches v t) (map snd licenses) \<and>
   (py_in ''CC BY-SA 4.0'' t \<and>
    \<not> label_matches ''CC BY 2.0'' t \<and> \<not> label_matches ''CC BY-SA 2.0'' t \<and>
    \<not> label_matches ''CC0 1.0'' t \<and> \<not> label_matches ''Public Domain Mark'' t \<and>
    \<not> label_matches ''CC BY 4.0'' t
    \<longrightarrow> normalize_license t = Some ''CC BY-SA 4.0'')"
proof
  show "normalize_license t = List.find (\<lambda>v. label_matches v t) (map snd licenses)"
    by (simp add: normalize_license_def license_loop_find)
  show "py_in ''CC BY-SA 4.0'' t \<and>
    \<not> label_matches ''CC BY 2.0'' t \<and> \<not> label_matches ''CC BY-SA 2.0'' t \<and>
    \<not> label_matches ''CC0 1.0'' t \<and> \<not> label_matches ''Public Domain Mark'' t \<and>
    \<not> label_matches ''CC BY 4.0'' t
    \<longrightarrow> normalize_license t = Some ''CC BY-SA 4.0''"
    using py_in_label_matches[of "''CC BY-SA 4.0''" t]
    by (simp add: normalize_license_def licenses_def)
qed

theorem C3_first_matching_label_witness:
  "(py_in ''CC BY-SA 4.0'' ''CC BY-SA 4.0'' \<and>
    \<not> label_matches ''CC BY 2.0'' ''CC BY-SA 4.0'' \<and>
    \<not> label_matches ''CC BY-SA 2.0'' ''CC BY-SA 4.0'' \<and>
    \<not> label_matches ''CC0 1.0'' ''CC BY-SA 4.0'' \<and>
    \<not> label_matches ''Public Domain Mark'' ''CC BY-SA 4.0'' \<and>
    \<not> label_matches ''CC BY 4.0'' ''CC BY-SA 4.0'') \<and>
   normalize_license ''CC BY-SA 4.0'' = Some ''CC BY-SA 4.0''"
proof -
  have h: "py_in ''CC BY-SA 4.0'' ''CC BY-SA 4.0'' \<and>
    \<not> label_matches ''CC BY 2.0'' ''CC BY-SA 4.0'' \<and>
    \<not> label_matches ''CC BY-SA 2.0'' ''CC BY-SA 4.0'' \<and>
    \<not> label_matches ''CC0 1.0'' ''CC BY-SA 4.0'' \<and>
    \<not> label_matches ''Public Domain Mark'' ''CC BY-SA 4.0'' \<and>
    \<not> label_matches ''CC BY 4.0'' ''CC BY-SA 4.0''"
    by (simp add: label_matches_def replace_char_def)
  from C3_first_matching_label[of "''CC BY-SA 4.0''"] h
  have "normalize_license ''CC BY-SA 4.0'' = Some ''CC BY-SA 4.0''" by blast
  with h show ?thesis by blast
qed

text \<open>
  The property as the specification words it fails: the text \<^verbatim>\<open>CC BY 4.0 / CC BY-SA 4.0\<close> contains the
  share-alike label, which is the longest label occurring in it, and normalizes to the
  shorter attribution-only label, which comes first in the table.
\<close>

theorem C3_longest_label_counterexample:
  "py_in ''CC BY-SA 4.0'' ''CC BY 4.0 / CC BY-SA 4.0'' \<and>
   spec_longest_label ''CC BY 4.0 / CC BY-SA 4.0'' = Some ''CC BY-SA 4.0'' \<and>
   normalize_license ''CC BY 4.0 / CC BY-SA 4.0'' = Some ''CC BY 4.0''"
  by (simp add: normalize_license_def licenses_def label_matches_def replace_char_def spec_longest_label_def longer_label_def)

section \<open>Properties of the collectors\<close>

lemma fetch_eq:
  "fetch e url w =
     (case http_get e (length (requests w)) url of
        None \<Rightarrow> None
      | Some r \<Rightarrow> if resp_ok r then Some r else None,
      w\<lparr>requests := requests w @ [url]\<rparr>)"
  by (simp add: fetch_def session_get_def split: option.splits)

lemma fetch_fails:
  "page_fetch_fails e url w \<Longrightarrow> fetch e url w = (None, w\<lparr>requests := requests w @ [url]\<rparr>)"
  by (auto simp: fetch_eq page_fetch_fails_def split: option.splits)

lemma get_photo_metadata_id:
  "get_photo_metadata e p st = (Some m, st1) \<Longrightarrow> md_photo_id m = pi_id p"
  by (auto simp: get_photo_metadata_def split: prod.splits option.splits)

text \<open>
  C7. The metadata resolver is a total function into an optional result. When the page
  of a reference cannot be fetched, it returns \<open>None\<close> (so does the resolver of the basic
  collector), and the loop of the orchestrator appends the id of the reference to the
  list of failures, leaves the ledger as it is, counts the item as skipped and goes on
  with the remaining references.
\<close>

theorem C7_resolver_returns_sentinel:
  "(page_fetch_fails e (pi_url p) st \<longrightarrow>
      get_photo_metadata e p st = (None, st\<lparr>requests := requests st @ [pi_url p]\<rparr>) \<and>
      scrape_loop e (p # rest) (downloaded, skipped) st
        = scrape_loop e rest (downloaded, skipped + 1)
            (st\<lparr>requests := requests st @ [pi_url p],
                failed_downloads := failed_downloads st @ [pi_id p]\<rparr>)) \<and>
   (page_fetch_fails e (pi_url p) cst \<longrightarrow>
      get_photo_details e p cst = (None, cst\<lparr>requests := requests cst @ [pi_url p]\<rparr>))"
  by (simp add: get_photo_metadata_def get_photo_details_def fetch_fails)

theorem C7_resolver_returns_sentinel_witness:
  "(page_fetch_fails net_down (pi_url photo_jdoe) empty_dir \<and>
    page_fetch_fails net_down (pi_url photo_jdoe) empty_collector) \<and>
   get_photo_metadata net_down photo_jdoe empty_dir
     = (None, empty_dir\<lparr>requests := [''https://www.flickr.com/photos/j.doe/12345678'']\<rparr>) \<and>
   scrape_loop net_down [photo_jdoe] (0, 0) empty_dir
     = ((0, 1), empty_dir\<lparr>requests := [''https://www.flickr.com/photos/j.doe/12345678''],
                          failed_downloads := [''12345678'']\<rparr>) \<and>
   get_photo_details net_down photo_jdoe empty_collector
     = (None, empty_collector\<lparr>requests := [''https://www.flickr.com/photos/j.doe/12345678'']\<rparr>)"
proof -
  have h: "page_fetch_fails net_down (pi_url photo_jdoe) empty_dir \<and>
    page_fetch_fails net_down (pi_url photo_jdoe) empty_collector"
    by (simp add: page_fetch_fails_def net_down_def net_up_def)
  have r: "requests empty_dir = []" "failed_downloads empty_dir = []" "requests empty_collector = []"
    by (simp_all add: empty_dir_def init_def empty_collector_def)
  have p: "pi_url photo_jdoe = ''https://www.flickr.com/photos/j.doe/12345678''"
    "pi_id photo_jdoe = ''12345678''"
    by (simp_all add: photo_jdoe_def)
  from C7_resolver_returns_sentinel[where e = net_down and p = photo_jdoe and st = empty_dir
         and cst = empty_collector and rest = "[]" and downloaded = 0 and skipped = 0] h
  show ?thesis by (simp add: r p)
qed

lemma enhanced_filename_spec:
  "enhanced_filename photo_id username = spec_filename ''flickr'' photo_id username ''jpg''"
  by (simp add: enhanced_filename_def spec_filename_def)

lemma append_and_save_photos:
  "photos_dir (snd (append_and_save e i m st)) = photos_dir st"
  by (simp add: append_and_save_def download_failed_def Let_def)

lemma download_failed_photos:
  "photos_dir (snd (download_failed i st)) = photos_dir st"
  by (simp add: download_failed_def)

lemma enhanced_writes_only_filename:
  "f \<noteq> enhanced_filename (pi_id p) (pi_username p) \<Longrightarrow>
   photos_dir (snd (download_photo_with_metadata e p m st)) f = photos_dir st f"
  by (auto simp: download_photo_with_metadata_def fetch_eq Let_def append_and_save_photos
        download_failed_photos split: option.splits if_splits)

lemma api_writes_only_filename:
  "f \<noteq> enhanced_filename (ap_id info) (ap_photographer info) \<Longrightarrow>
   photos_dir (snd (api_download_photo e info cst)) f = photos_dir cst f"
  by (auto simp: api_download_photo_def session_get_def Let_def split: option.splits if_splits)

lemma basic_writes_only_filename:
  "f \<noteq> basic_filename (pd_id pd) (pd_photographer pd) (py_or (pd_image_url pd) []) \<Longrightarrow>
   photos_dir (snd (download_photo e pd cst)) f = photos_dir cst f"
  by (auto simp: download_photo_def fetch_eq Let_def py_or_def split: option.splits if_splits)

lemma enhanced_success_file:
  "fst (download_photo_with_metadata e p m st) \<Longrightarrow>
   photos_dir (snd (download_photo_with_metadata e p m st))
     (enhanced_filename (pi_id p) (pi_username p)) \<noteq> None"
  by (auto simp: download_photo_with_metadata_def fetch_eq Let_def append_and_save_def
        download_failed_def split: option.splits if_splits)

lemma api_success_file:
  "fst (api_download_photo e info cst) \<Longrightarrow>
   photos_dir (snd (api_download_photo e info cst))
     (enhanced_filename (ap_id info) (ap_photographer info)) \<noteq> None"
  by (auto simp: api_download_photo_def session_get_def Let_def split: option.splits if_splits)

lemma basic_success_file:
  "fst (download_photo e pd cst) \<Longrightarrow>
   photos_dir (snd (download_photo e pd cst))
     (basic_filename (pd_id pd) (pd_photographer pd) (py_or (pd_image_url pd) [])) \<noteq> None"
  by (auto simp: download_photo_def fetch_eq Let_def py_or_def split: option.splits if_splits)

lemmas example_defs = fetch_eq Let_def append_and_save_def
        download_failed_def net_up_def net_down_def photo_jdoe_def empty_dir_def init_def final_url_of_def
        displayed_image_def enhanced_filename_def clean_name_def is_filename_char_def
        is_lower_def is_upper_def is_digit_def entry_jdoe_def example_page_def dquote_def
        details_jdoe_def empty_collector_def
     basic_filename_def basic_ext_def replace_char_def basic_attribution_def rsplit2_head_def drop_last_segment_def
     spec_filename_def api_jdoe_def session_get_def py_or_def

text \<open>
  C8, as amended. In the enhanced collector and in the API collector the only file an item
  writes is named \<^verbatim>\<open>flickr_<id>_<sanitizedOwner>.jpg\<close>, where every character of the
  owner handle outside \<^verbatim>\<open>[A-Za-z0-9_-]\<close> is replaced by an underscore, and an item
  reported as handled has a file of that name. In the basic collector the file is named
  \<^verbatim>\<open>flickr_<id>_<photographer>.<ext>\<close> with only the spaces of the photographer's name
  replaced by underscores, and \<^verbatim>\<open>png\<close> for an image URL containing \<^verbatim>\<open>.png\<close>, else
  \<^verbatim>\<open>jpg\<close>.
\<close>

theorem C8_written_filename:
  "(f \<noteq> spec_filename ''flickr'' (pi_id p) (pi_username p) ''jpg'' \<longrightarrow>
      photos_dir (snd (download_photo_with_metadata e p m st)) f = photos_dir st f) \<and>
   (fst (download_photo_with_metadata e p m st) \<longrightarrow>
      photos_dir (snd (download_photo_with_metadata e p m st))
        (spec_filename ''flickr'' (pi_id p) (pi_username p) ''jpg'') \<noteq> None) \<and>
   (f \<noteq> spec_filename ''flickr'' (ap_id info) (ap_photographer info) ''jpg'' \<longrightarrow>
      photos_dir (snd (api_download_photo e info cst)) f = photos_dir cst f) \<and>
   (fst (api_download_photo e info cst) \<longrightarrow>
      photos_dir (snd (api_download_photo e info cst))
        (spec_filename ''flickr'' (ap_id info) (ap_photographer info) ''jpg'') \<noteq> None) \<and>
   (f \<noteq> ''flickr_'' @ pd_id pd @ ''_'' @ replace_char CHR '' '' ''_'' (pd_photographer pd)
           @ ''.'' @ basic_ext (py_or (pd_image_url pd) []) \<longrightarrow>
      photos_dir (snd (download_photo e pd cst)) f = photos_dir cst f) \<and>
   (fst (download_photo e pd cst) \<longrightarrow>
      photos_dir (snd (download_photo e pd cst))
        (''flickr_'' @ pd_id pd @ ''_'' @ replace_char CHR '' '' ''_'' (pd_photographer pd)
           @ ''.'' @ basic_ext (py_or (pd_image_url pd) [])) \<noteq> None)"
  using enhanced_writes_only_filename[of f p e m st] enhanced_success_file[of e p m st]
        api_writes_only_filename[of f info e cst] api_success_file[of e info cst]
        basic_writes_only_filename[of f pd e cst] basic_success_file[of e pd cst]
  by (simp add: enhanced_filename_spec basic_filename_def)

theorem C8_written_filename_witness:
  "''other.jpg'' \<noteq> spec_filename ''flickr'' (pi_id photo_jdoe) (pi_username photo_jdoe) ''jpg'' \<and>
   fst (download_photo_with_metadata net_up photo_jdoe entry_jdoe empty_dir) \<and>
   ''other.jpg'' \<noteq> spec_filename ''flickr'' (ap_id api_jdoe) (ap_photographer api_jdoe) ''jpg'' \<and>
   fst (api_download_photo net_up api_jdoe empty_collector) \<and>
   ''other.jpg'' \<noteq> ''flickr_'' @ pd_id details_jdoe @ ''_''
       @ replace_char CHR '' '' ''_'' (pd_photographer details_jdoe)
       @ ''.'' @ basic_ext (py_or (pd_image_url details_jdoe) []) \<and>
   fst (download_photo net_up details_jdoe empty_collector) \<and>
   spec_filename ''flickr'' (pi_id photo_jdoe) (pi_username photo_jdoe) ''jpg''
     = ''flickr_12345678_j_doe.jpg'' \<and>
   photos_dir (snd (download_photo_with_metadata net_up photo_jdoe entry_jdoe empty_dir)) ''other.jpg''
     = photos_dir empty_dir ''other.jpg'' \<and>
   photos_dir (snd (download_photo_with_metadata net_up photo_jdoe entry_jdoe empty_dir))
     ''flickr_12345678_j_doe.jpg'' \<noteq> None \<and>
   photos_dir (snd (api_download_photo net_up api_jdoe empty_collector))
     ''flickr_12345678_j_doe.jpg'' \<noteq> None \<and>
   photos_dir (snd (download_photo net_up details_jdoe empty_collector))
     ''flickr_12345678_J._Doe.jpg'' \<noteq> None"
proof -
  have h1: "''other.jpg'' \<noteq> spec_filename ''flickr'' (pi_id photo_jdoe) (pi_username photo_jdoe) ''jpg''"
    and n1: "spec_filename ''flickr'' (pi_id photo_jdoe) (pi_username photo_jdoe) ''jpg''
              = ''flickr_12345678_j_doe.jpg''"
    by (simp_all add: example_defs)
  have h2: "fst (download_photo_with_metadata net_up photo_jdoe entry_jdoe empty_dir)"
    by (simp add: download_photo_with_metadata_def example_defs)
  have h3: "''other.jpg'' \<noteq> spec_filename ''flickr'' (ap_id api_jdoe) (ap_photographer api_jdoe) ''jpg''"
    and n3: "spec_filename ''flickr'' (ap_id api_jdoe) (ap_photographer api_jdoe) ''jpg''
              = ''flickr_12345678_j_doe.jpg''"
    by (simp_all add: example_defs)
  have h4: "fst (api_download_photo net_up api_jdoe empty_collector)"
    by (simp add: api_download_photo_def example_defs)
  have h5: "''other.jpg'' \<noteq> ''flickr_'' @ pd_id details_jdoe @ ''_''
       @ replace_char CHR '' '' ''_'' (pd_photographer details_jdoe)
       @ ''.'' @ basic_ext (py_or (pd_image_url details_jdoe) [])"
    and n5: "''flickr_'' @ pd_id details_jdoe @ ''_''
       @ replace_char CHR '' '' ''_'' (pd_photographer details_jdoe)
       @ ''.'' @ basic_ext (py_or (pd_image_url details_jdoe) []) = ''flickr_12345678_J._Doe.jpg''"
    by (simp_all add: example_defs)
  have h6: "fst (download_photo net_up details_jdoe empty_collector)"
    by (simp add: download_photo_def example_defs)
  note t = C8_written_filename[of "''other.jpg''" photo_jdoe net_up entry_jdoe empty_dir
             api_jdoe empty_collector details_jdoe]
  from t h1 have c1: "photos_dir (snd (download_photo_with_metadata net_up photo_jdoe entry_jdoe empty_dir))
      ''other.jpg'' = photos_dir empty_dir ''other.jpg''" by blast
  from t h2 n1 have c2: "photos_dir (snd (download_photo_with_metadata net_up photo_jdoe entry_jdoe empty_dir))
     ''flickr_12345678_j_doe.jpg'' \<noteq> None" by metis
  from t h4 n3 have c4: "photos_dir (snd (api_download_photo net_up api_jdoe empty_collector))
     ''flickr_12345678_j_doe.jpg'' \<noteq> None" by metis
  from t h6 n5 have c6: "photos_dir (snd (download_photo net_up details_jdoe empty_collector))
     ''flickr_12345678_J._Doe.jpg'' \<noteq> None" by metis
  from h1 h2 h3 h4 h5 h6 n1 c1 c2 c4 c6 show ?thesis by blast
qed

text \<open>
  The property as the specification words it fails in the basic collector: the photographer
  \<^verbatim>\<open>J. Doe\<close> gives the file \<^verbatim>\<open>flickr_12345678_J._Doe.jpg\<close>, in which the dot is kept,
  and no file of the sanitized name.
\<close>

theorem C8_basic_filename_counterexample:
  "fst (download_photo net_up details_jdoe empty_collector) \<and>
   photos_dir (snd (download_photo net_up details_jdoe empty_collector))
     ''flickr_12345678_J._Doe.jpg'' = Some ''JPEG'' \<and>
   spec_filename ''flickr'' (pd_id details_jdoe) (pd_photographer details_jdoe) ''jpg''
     = ''flickr_12345678_J__Doe.jpg'' \<and>
   photos_dir (snd (download_photo net_up details_jdoe empty_collector))
     ''flickr_12345678_J__Doe.jpg'' = None"
  by (simp add: download_photo_def example_defs)

lemma basic_skip:
  "truthy (pd_image_url pd) \<Longrightarrow>
   photos_dir cst (basic_filename (pd_id pd) (pd_photographer pd) (py_or (pd_image_url pd) [])) \<noteq> None \<Longrightarrow>
   download_photo e pd cst = (True, cst)"
  by (auto simp: download_photo_def truthy_def py_or_def split: option.splits)

lemma api_skip:
  "truthy (ap_image_url info) \<Longrightarrow>
   photos_dir cst (enhanced_filename (ap_id info) (ap_photographer info)) \<noteq> None \<Longrightarrow>
   api_download_photo e info cst = (True, cst)"
  by (auto simp: api_download_photo_def truthy_def split: option.splits)

lemma enhanced_skip:
  assumes "photos_dir st (enhanced_filename (pi_id p) (pi_username p)) \<noteq> None"
    and "sizes_page_located e p st"
    and "pi_id p \<in> set (map md_photo_id (metadata st)) \<or> can_write e ''metadata.json''"
  shows "fst (download_photo_with_metadata e p m st) \<and>
         requests (snd (download_photo_with_metadata e p m st)) = requests st @ [sizes_url_of p] \<and>
         photos_dir (snd (download_photo_with_metadata e p m st)) = photos_dir st"
  using assms
  by (auto simp: download_photo_with_metadata_def fetch_eq Let_def sizes_page_located_def
        sizes_url_of_def append_and_save_def download_failed_def split: option.splits if_splits)

text \<open>
  C4, as amended. When the file name of an item already names a file of the photos
  directory: the download executors of the basic collector and of the API collector,
  given an image URL, report success and leave the state as it is, so they make no
  request; the executor of the enhanced collector first requests the sizes page, and when
  that request succeeds and a download URL is found on the page (and the ledger either
  holds the id or can be saved) it reports success, having requested nothing but the
  sizes page and having left the photos directory as it is.
\<close>

theorem C4_existing_file_is_skipped:
  "(truthy (pd_image_url pd) \<and>
    photos_dir cst (basic_filename (pd_id pd) (pd_photographer pd) (py_or (pd_image_url pd) []))
      \<noteq> None
    \<longrightarrow> download_photo e pd cst = (True, cst)) \<and>
   (truthy (ap_image_url info) \<and>
    photos_dir cst (enhanced_filename (ap_id info) (ap_photographer info)) \<noteq> None
    \<longrightarrow> api_download_photo e info cst = (True, cst)) \<and>
   (photos_dir st (enhanced_filename (pi_id p) (pi_username p)) \<noteq> None \<and>
    sizes_page_located e p st \<and>
    (pi_id p \<in> set (map md_photo_id (metadata st)) \<or> can_write e ''metadata.json'')
    \<longrightarrow> fst (download_photo_with_metadata e p m st) \<and>
        requests (snd (download_photo_with_metadata e p m st)) = requests st @ [sizes_url_of p] \<and>
        photos_dir (snd (download_photo_with_metadata e p m st)) = photos_dir st)"
  using basic_skip[of pd cst e] api_skip[of info cst e] enhanced_skip[of st p e m]
  by blast

theorem C4_existing_file_is_skipped_witness:
  "(truthy (pd_image_url details_jdoe) \<and>
    photos_dir collector_with_photo
      (basic_filename (pd_id details_jdoe) (pd_photographer details_jdoe)
         (py_or (pd_image_url details_jdoe) [])) \<noteq> None) \<and>
   (truthy (ap_image_url api_jdoe) \<and>
    photos_dir collector_with_photo
      (enhanced_filename (ap_id api_jdoe) (ap_photographer api_jdoe)) \<noteq> None) \<and>
   (photos_dir dir_with_photo (enhanced_filename (pi_id photo_jdoe) (pi_username photo_jdoe)) \<noteq> None \<and>
    sizes_page_located net_up photo_jdoe dir_with_photo \<and>
    (pi_id photo_jdoe \<in> set (map md_photo_id (metadata dir_with_photo))
       \<or> can_write net_up ''metadata.json'')) \<and>
   download_photo net_up details_jdoe collector_with_photo = (True, collector_with_photo) \<and>
   api_download_photo net_up api_jdoe collector_with_photo = (True, collector_with_photo) \<and>
   fst (download_photo_with_metadata net_up photo_jdoe entry_jdoe dir_with_photo) \<and>
   requests (snd (download_photo_with_metadata net_up photo_jdoe entry_jdoe dir_with_photo))
     = requests dir_with_photo @ [sizes_url_of photo_jdoe] \<and>
   photos_dir (snd (download_photo_with_metadata net_up photo_jdoe entry_jdoe dir_with_photo))
     = photos_dir dir_with_photo"
proof -
  have h1: "truthy (pd_image_url details_jdoe) \<and>
    photos_dir collector_with_photo
      (basic_filename (pd_id details_jdoe) (pd_photographer details_jdoe)
         (py_or (pd_image_url details_jdoe) [])) \<noteq> None"
    by (simp add: truthy_def collector_with_photo_def example_defs)
  have h2: "truthy (ap_image_url api_jdoe) \<and>
    photos_dir collector_with_photo
      (enhanced_filename (ap_id api_jdoe) (ap_photographer api_jdoe)) \<noteq> None"
    by (simp add: truthy_def collector_with_photo_def example_defs)
  have h3: "photos_dir dir_with_photo (enhanced_filename (pi_id photo_jdoe) (pi_username photo_jdoe)) \<noteq> None \<and>
    sizes_page_located net_up photo_jdoe dir_with_photo \<and>
    (pi_id photo_jdoe \<in> set (map md_photo_id (metadata dir_with_photo))
       \<or> can_write net_up ''metadata.json'')"
    by (simp add: dir_with_photo_def sizes_page_located_def sizes_url_of_def example_defs)
  note t = C4_existing_file_is_skipped[of details_jdoe collector_with_photo net_up api_jdoe
             dir_with_photo photo_jdoe entry_jdoe]
  from t h1 have c1: "download_photo net_up details_jdoe collector_with_photo = (True, collector_with_photo)"
    by blast
  from t h2 have c2: "api_download_photo net_up api_jdoe collector_with_photo = (True, collector_with_photo)"
    by blast
  from t h3 have c3: "fst (download_photo_with_metadata net_up photo_jdoe entry_jdoe dir_with_photo) \<and>
   requests (snd (download_photo_with_metadata net_up photo_jdoe entry_jdoe dir_with_photo))
     = requests dir_with_photo @ [sizes_url_of photo_jdoe] \<and>
   photos_dir (snd (download_photo_with_metadata net_up photo_jdoe entry_jdoe dir_with_photo))
     = photos_dir dir_with_photo"
    by blast
  from h1 h2 h3 c1 c2 c3 show ?thesis by blast
qed

text \<open>
  The property as the specification words it fails in the enhanced collector, where the sizes page is
  requested before the file is looked for: with the file present and the network down,
  the item is reported as failed and entered in the list of failures; with the network
  up, the item is reported as handled after one request.
\<close>

theorem C4_enhanced_fetches_first_counterexample:
  "photos_dir dir_with_photo (enhanced_filename (pi_id photo_jdoe) (pi_username photo_jdoe))
     = Some ''JPEG'' \<and>
   download_photo_with_metadata net_down photo_jdoe entry_jdoe dir_with_photo
     = (False, dir_with_photo\<lparr>requests := [''https://www.flickr.com/photos/j.doe/12345678/sizes/''],
                              failed_downloads := [''12345678'']\<rparr>) \<and>
   requests (snd (download_photo_with_metadata net_up photo_jdoe entry_jdoe dir_with_photo))
     = [''https://www.flickr.com/photos/j.doe/12345678/sizes/'']"
  by (simp add: download_photo_with_metadata_def example_defs dir_with_photo_def)

lemma api_login_retry:
  assumes "ap_image_url info = Some iu" and "iu \<noteq> []"
    and "photos_dir cst (enhanced_filename (ap_id info) (ap_photographer info)) = None"
    and "http_get e (length (requests cst)) (py_or (ap_download_url info) iu) = Some r"
    and "py_in ''login'' (resp_url r)"
  shows "requests (snd (api_download_photo e info cst))
           = requests cst @ [py_or (ap_download_url info) iu, iu] \<and>
         fst (api_download_photo e info cst)
           = (case http_get e (Suc (length (requests cst))) iu of
                None \<Rightarrow> False
              | Some r2 \<Rightarrow> resp_ok r2
                    \<and> can_write e (enhanced_filename (ap_id info) (ap_photographer info))) \<and>
         (fst (api_download_photo e info cst) \<longrightarrow>
            photos_dir (snd (api_download_photo e info cst))
              (enhanced_filename (ap_id info) (ap_photographer info))
              = map_option resp_body (http_get e (Suc (length (requests cst))) iu))"
  using assms
  by (auto simp: api_download_photo_def session_get_def Let_def split: option.splits)

lemma api_no_image_url:
  "\<not> truthy (ap_image_url info) \<Longrightarrow> api_download_photo e info cst = (False, cst)"
  by (auto simp: api_download_photo_def truthy_def split: option.splits)

text \<open>
  C6, as amended. When the first request of a download (to the download URL, or to the
  image URL when there is no download URL) ends on a URL containing \<^verbatim>\<open>login\<close>, the
  executor of the API collector makes exactly one more request, to the image URL. The
  item is reported as handled, with the answer to that request written to the file,
  exactly when that request is answered without an error status and the file can be
  written; otherwise it is reported as failed. An item without an image URL is reported
  as failed before any request.
\<close>

theorem C6_login_retries_once:
  "(ap_image_url info = Some iu \<and> iu \<noteq> [] \<and>
    photos_dir cst (enhanced_filename (ap_id info) (ap_photographer info)) = None \<and>
    http_get e (length (requests cst)) (py_or (ap_download_url info) iu) = Some r \<and>
    py_in ''login'' (resp_url r)
    \<longrightarrow>
      requests (snd (api_download_photo e info cst))
        = requests cst @ [py_or (ap_download_url info) iu, iu] \<and>
      fst (api_download_photo e info cst)
        = (case http_get e (Suc (length (requests cst))) iu of
             None \<Rightarrow> False
           | Some r2 \<Rightarrow> resp_ok r2
                 \<and> can_write e (enhanced_filename (ap_id info) (ap_photographer info))) \<and>
      (fst (api_download_photo e info cst) \<longrightarrow>
         photos_dir (snd (api_download_photo e info cst))
           (enhanced_filename (ap_id info) (ap_photographer info))
           = map_option resp_body (http_get e (Suc (length (requests cst))) iu))) \<and>
   (\<not> truthy (ap_image_url info) \<longrightarrow> api_download_photo e info cst = (False, cst))"
  using api_login_retry[of info iu cst e r] api_no_image_url[of info e cst]
  by blast

theorem C6_login_retries_once_witness:
  "(ap_image_url api_jdoe = Some ''https://live.staticflickr.com/1/12345678_ab_b.jpg'' \<and>
    ''https://live.staticflickr.com/1/12345678_ab_b.jpg'' \<noteq> [] \<and>
    photos_dir empty_collector (enhanced_filename (ap_id api_jdoe) (ap_photographer api_jdoe)) = None \<and>
    http_get net_login_first (length (requests empty_collector))
      (py_or (ap_download_url api_jdoe) ''https://live.staticflickr.com/1/12345678_ab_b.jpg'')
      = Some login_response \<and>
    py_in ''login'' (resp_url login_response)) \<and>
   \<not> truthy (ap_image_url (api_jdoe\<lparr>ap_image_url := None\<rparr>)) \<and>
   requests (snd (api_download_photo net_login_first api_jdoe empty_collector))
     = [''https://www.flickr.com/photo_download.gne?id=12345678&secret=ab&size=o'',
        ''https://live.staticflickr.com/1/12345678_ab_b.jpg''] \<and>
   fst (api_download_photo net_login_first api_jdoe empty_collector) \<and>
   photos_dir (snd (api_download_photo net_login_first api_jdoe empty_collector))
     ''flickr_12345678_j_doe.jpg'' = Some ''JPEG'' \<and>
   api_download_photo net_login_first (api_jdoe\<lparr>ap_image_url := None\<rparr>) empty_collector
     = (False, empty_collector)"
proof -
  let ?iu = "''https://live.staticflickr.com/1/12345678_ab_b.jpg''"
  have h: "ap_image_url api_jdoe = Some ?iu \<and> ?iu \<noteq> [] \<and>
    photos_dir empty_collector (enhanced_filename (ap_id api_jdoe) (ap_photographer api_jdoe)) = None \<and>
    http_get net_login_first (length (requests empty_collector))
      (py_or (ap_download_url api_jdoe) ?iu) = Some login_response \<and>
    py_in ''login'' (resp_url login_response)"
    by (simp add: example_defs net_login_first_def login_response_def)
  have h2: "\<not> truthy (ap_image_url (api_jdoe\<lparr>ap_image_url := None\<rparr>))"
    by (simp add: truthy_def)
  have v: "requests empty_collector = []"
    "py_or (ap_download_url api_jdoe) ?iu
       = ''https://www.flickr.com/photo_download.gne?id=12345678&secret=ab&size=o''"
    "enhanced_filename (ap_id api_jdoe) (ap_photographer api_jdoe) = ''flickr_12345678_j_doe.jpg''"
    "http_get net_login_first (Suc 0) ?iu
       = Some \<lparr>resp_url = ?iu, resp_ok = True, resp_body = ''JPEG''\<rparr>"
    "can_write net_login_first ''flickr_12345678_j_doe.jpg''"
    by (simp_all add: example_defs net_login_first_def)
  from C6_login_retries_once[of api_jdoe ?iu empty_collector net_login_first login_response] h
  have c: "requests (snd (api_download_photo net_login_first api_jdoe empty_collector))
     = [''https://www.flickr.com/photo_download.gne?id=12345678&secret=ab&size=o'', ?iu] \<and>
   fst (api_download_photo net_login_first api_jdoe empty_collector) \<and>
   photos_dir (snd (api_download_photo net_login_first api_jdoe empty_collector))
     ''flickr_12345678_j_doe.jpg'' = Some ''JPEG''"
    by (simp add: v)
  from C6_login_retries_once[of "api_jdoe\<lparr>ap_image_url := None\<rparr>" ?iu empty_collector
         net_login_first login_response] h2
  have c2: "api_download_photo net_login_first (api_jdoe\<lparr>ap_image_url := None\<rparr>) empty_collector
     = (False, empty_collector)"
    by blast
  from h h2 c c2 show ?thesis by blast
qed

text \<open>
  The property as the specification words it fails: the first request ends on the login page, an image
  URL is available, the one retry times out, and the item is reported as failed.
\<close>

theorem C6_retry_can_fail_counterexample:
  "ap_image_url api_jdoe = Some ''https://live.staticflickr.com/1/12345678_ab_b.jpg'' \<and>
   http_get net_login_only 0 ''https://www.flickr.com/photo_download.gne?id=12345678&secret=ab&size=o''
     = Some login_response \<and>
   py_in ''login'' (resp_url login_response) \<and>
   api_download_photo net_login_only api_jdoe empty_collector
     = (False, empty_collector\<lparr>requests :=
          [''https://www.flickr.com/photo_download.gne?id=12345678&secret=ab&size=o'',
           ''https://live.staticflickr.com/1/12345678_ab_b.jpg'']\<rparr>)"
  by (simp add: api_download_photo_def example_defs net_login_only_def login_response_def)

section \<open>The ledger across runs\<close>

lemma extract_listing_alias: "extract_photos_from_html None listing_alias = [photo_jdoe]"
  by (simp add: extract_photos_from_html_def findall_photo_urls_def listing_alias_def
        match_photo_url_def photos_prefix_def is_digit_def photo_jdoe_def)

lemma extract_listing_nsid: "extract_photos_from_html None listing_nsid =
   [\<lparr>pi_id = ''12345678'', pi_username = ''99999999@N00'',
     pi_url = ''https://www.flickr.com/photos/99999999@N00/12345678''\<rparr>]"
  by (simp add: extract_photos_from_html_def findall_photo_urls_def listing_nsid_def
        match_photo_url_def photos_prefix_def is_digit_def)

lemmas run_defs = run_def scrape_def statistics_raise_def get_photo_metadata_def
  download_photo_with_metadata_def ledger_ids_def

text \<open>
  The branch that finds the file present checks the ledger before it appends: it keeps
  the ids of the ledger pairwise different.
\<close>

lemma skip_branch_keeps_ids_distinct:
  assumes "photos_dir st (enhanced_filename (pi_id p) (pi_username p)) \<noteq> None"
    and "md_photo_id m = pi_id p"
    and "distinct (map md_photo_id (metadata st))"
  shows "distinct (map md_photo_id (metadata (snd (download_photo_with_metadata e p m st))))"
  using assms
  by (auto simp: download_photo_with_metadata_def fetch_eq Let_def append_and_save_def
        download_failed_def split: option.splits if_splits)

text \<open>
  C2. The branch that downloads appends without that check. A first run over a listing
  that links photo \<^verbatim>\<open>12345678\<close> under the owner's path alias returns and leaves one
  record in \<^verbatim>\<open>metadata.json\<close>; a second run over the same output directory, with a
  listing that links the same photo under the owner's id, computes another file name,
  downloads again, returns and leaves two records with the id. A second run over the first
  listing leaves one.
\<close>

theorem C2_second_run_duplicates_id:
  "fst (run net_up None listing_alias empty_dir) = Returned \<and>
   ledger_ids (snd (run net_up None listing_alias empty_dir)) = [''12345678''] \<and>
   fst (run net_up None listing_nsid (snd (run net_up None listing_alias empty_dir))) = Returned \<and>
   ledger_ids (snd (run net_up None listing_nsid (snd (run net_up None listing_alias empty_dir))))
     = [''12345678'', ''12345678''] \<and>
   ledger_ids (snd (run net_up None listing_alias (snd (run net_up None listing_alias empty_dir))))
     = [''12345678'']"
  by (simp add: run_defs extract_listing_alias extract_listing_nsid example_defs)

text \<open>
  On photo pages without a location each of these runs is left by the exception of the
  statistics, after the ledger has been written; the second run leaves the same two
  records.
\<close>

lemma second_run_duplicates_id_no_location:
  "fst (run net_up_no_location None listing_alias empty_dir) = Raised \<and>
   ledger_ids (snd (run net_up_no_location None listing_alias empty_dir)) = [''12345678''] \<and>
   fst (run net_up_no_location None listing_nsid
          (snd (run net_up_no_location None listing_alias empty_dir))) = Raised \<and>
   ledger_ids (snd (run net_up_no_location None listing_nsid
                      (snd (run net_up_no_location None listing_alias empty_dir))))
     = [''12345678'', ''12345678'']"
  by (simp add: run_defs extract_listing_alias extract_listing_nsid example_defs
        net_up_no_location_def)

end
